theory Spec2Isabelle
  imports Main "HOL-Library.AList"
begin

section \<open>Values, errors and Python helpers\<close>

text \<open>
  A cell of the sheet is untyped in the source: a string or a number. The free-parameter
  vectors hold cells and, after validation, the two infinities that replace an empty bound.
  Numbers are modelled as Python integers.
\<close>

datatype cell = Str string | Num int | NegInf | PosInf

text \<open>
  Every exception the modelled code can raise. \<open>MissingArgument\<close> is the class of
  datafit.py; \<open>CannotFind\<close> is the \<^verbatim>\<open>ValueError("Cannot find submodel ... with arg ...")\<close>
  of the link resolution; \<open>NoGuess\<close> is the \<^verbatim>\<open>ValueError\<close> of the final check, with the
  listed ids; \<open>NotInList\<close> is the \<^verbatim>\<open>ValueError\<close> of \<^verbatim>\<open>list.index\<close>; \<open>EmptyArgmin\<close> is the
  \<^verbatim>\<open>ValueError\<close> of \<^verbatim>\<open>np.argmin\<close> on an empty array.
\<close>

datatype error =
    MissingArgument cell string
  | CannotFind string string
  | NoGuess "string list"
  | NotInList cell
  | KeyError cell
  | IndexError
  | AttributeError
  | TypeError
  | NameError string
  | SyntaxError string
  | EmptyArgmin
  | OverflowError
  | SolverFailure

text \<open>A Python dict keeps its keys in insertion order: an association list, read with
  \<open>map_of\<close> and written with \<open>AList.update\<close> (in place when the key exists, at the end
  otherwise).\<close>

type_synonym ('k, 'v) dict = "('k \<times> 'v) list"

definition getitem :: "(cell, 'v) dict \<Rightarrow> cell \<Rightarrow> error + 'v" where
  "getitem d k = (case map_of d k of None \<Rightarrow> Inl (KeyError k) | Some v \<Rightarrow> Inr v)"

definition contains :: "('k, 'v) dict \<Rightarrow> 'k \<Rightarrow> bool" where
  "contains d k = (map_of d k \<noteq> None)"

text \<open>\<^verbatim>\<open>xs.index(v)\<close>: the first position of \<open>v\<close>, or no position.\<close>

fun py_index :: "'a \<Rightarrow> 'a list \<Rightarrow> nat option" where
  "py_index v [] = None"
| "py_index v (x # xs) =
     (if x = v then Some 0 else (case py_index v xs of None \<Rightarrow> None | Some i \<Rightarrow> Some (Suc i)))"

definition list_index :: "cell list \<Rightarrow> cell \<Rightarrow> error + nat" where
  "list_index xs v = (case py_index v xs of None \<Rightarrow> Inl (NotInList v) | Some i \<Rightarrow> Inr i)"

definition list_get :: "'a list \<Rightarrow> nat \<Rightarrow> error + 'a" where
  "list_get xs i = (if i < length xs then Inr (xs ! i) else Inl IndexError)"

definition list_set :: "'a list \<Rightarrow> nat \<Rightarrow> 'a \<Rightarrow> error + 'a list" where
  "list_set xs i v = (if i < length xs then Inr (xs[i := v]) else Inl IndexError)"

text \<open>\<^verbatim>\<open>s.split(c)\<close> for a one-character separator: never empty.\<close>

fun split :: "char \<Rightarrow> string \<Rightarrow> string list" where
  "split c [] = [[]]"
| "split c (x # xs) =
     (if x = c then [] # split c xs
      else (case split c xs of [] \<Rightarrow> [[x]] | w # ws \<Rightarrow> (x # w) # ws))"

definition cell_split :: "char \<Rightarrow> cell \<Rightarrow> error + string list" where
  "cell_split c v = (case v of Str s \<Rightarrow> Inr (split c s) | _ \<Rightarrow> Inl AttributeError)"

definition is_space :: "char \<Rightarrow> bool" where
  "is_space c = (c \<in> set [CHR '' '', CHR 0x09, CHR 0x0A, CHR 0x0B, CHR 0x0C, CHR 0x0D])"

definition strip :: "string \<Rightarrow> string" where
  "strip s = rev (dropWhile is_space (rev (dropWhile is_space s)))"

text \<open>\<^verbatim>\<open>s[:-k]\<close> for \<open>k > 0\<close>.\<close>

definition drop_last :: "nat \<Rightarrow> 'a list \<Rightarrow> 'a list" where
  "drop_last k s = take (length s - k) s"

text \<open>\<^verbatim>\<open>str(n)\<close> for integers.\<close>

fun str_nat :: "nat \<Rightarrow> string" where
  "str_nat n =
     (if n < 10 then [''0123456789'' ! n]
      else str_nat (n div 10) @ [''0123456789'' ! (n mod 10)])"

declare str_nat.simps [simp del]

definition str_int :: "int \<Rightarrow> string" where
  "str_int i = (if i < 0 then CHR ''-'' # str_nat (nat (- i)) else str_nat (nat i))"

text \<open>\<^verbatim>\<open>str(v)\<close> and \<^verbatim>\<open>f'{v}'\<close> for a cell.\<close>

fun str :: "cell \<Rightarrow> string" where
  "str (Str s) = s"
| "str (Num i) = str_int i"
| "str NegInf = ''-inf''"
| "str PosInf = ''inf''"

section \<open>The Tabular Store\<close>

text \<open>
  Modelled from the spec: the sheet class of libremanip.py is not among the sources.
  The spec gives it as a grid of cells addressable by row and column (both counted from 1,
  row 1 the header), with the operations \<^verbatim>\<open>get_row_values(row, col_stop)\<close>,
  \<^verbatim>\<open>get_col_values(col)\<close>, \<^verbatim>\<open>set_cell_value(value, row, col)\<close>,
  \<^verbatim>\<open>set_col_values(data, col, row_start)\<close> and \<^verbatim>\<open>get_last_row()\<close>. A cell never written
  is the empty string. The object also carries the attributes that datafit.py adds to it.
\<close>

type_synonym entry = "(cell, cell list) dict"
type_synonym params = "(cell, (cell, entry) dict) dict"

record sheet =
  cells :: "int \<times> int \<Rightarrow> cell"
  last_row :: nat
  parameters :: params
  p_min :: "cell list"
  p_max :: "cell list"
  p_guess :: "cell list"
  p_fitted :: "cell list"
  p_error :: "cell list"
  linked_parameters :: "(string, nat) dict"
  id_list :: "string list"
  model_string :: string
  submodel :: "(cell, string \<times> string) dict"

definition get_last_row :: "sheet \<Rightarrow> nat" where
  "get_last_row s = last_row s"

definition get_row_values :: "sheet \<Rightarrow> int \<Rightarrow> nat \<Rightarrow> cell list" where
  "get_row_values s row col_stop = map (\<lambda>c. cells s (row, int c)) [1 ..< Suc col_stop]"

definition get_col_values :: "sheet \<Rightarrow> int \<Rightarrow> cell list" where
  "get_col_values s col = map (\<lambda>r. cells s (int r, col)) [1 ..< Suc (last_row s)]"

definition set_cell_value :: "cell \<Rightarrow> int \<Rightarrow> int \<Rightarrow> sheet \<Rightarrow> sheet" where
  "set_cell_value v row col s =
     s\<lparr>cells := (cells s)((row, col) := v), last_row := max (last_row s) (nat row)\<rparr>"

fun set_col_values :: "cell list \<Rightarrow> int \<Rightarrow> int \<Rightarrow> sheet \<Rightarrow> sheet" where
  "set_col_values [] col row_start s = s"
| "set_col_values (v # vs) col row_start s =
     set_col_values vs col (row_start + 1) (set_cell_value v row_start col s)"

text \<open>\<^verbatim>\<open>last_col = 'L'\<close>: the twelfth column.\<close>

definition last_col :: nat where
  "last_col = 12"

text \<open>
  The outcome of a method of the sheet: it returns, or it raises and leaves the object as
  it was at that moment, or (\<open>None\<close>) it never returns.
\<close>

type_synonym 'a outcome = "((error \<times> sheet) + 'a) option"

definition attempt :: "error + 'a \<Rightarrow> sheet \<Rightarrow> ('a \<Rightarrow> 'b outcome) \<Rightarrow> 'b outcome" where
  "attempt r s k = (case r of Inl e \<Rightarrow> Some (Inl (e, s)) | Inr v \<Rightarrow> k v)"

definition after :: "'a outcome \<Rightarrow> ('a \<Rightarrow> 'b outcome) \<Rightarrow> 'b outcome" where
  "after m k = (case m of None \<Rightarrow> None | Some (Inl e) \<Rightarrow> Some (Inl e) | Some (Inr v) \<Rightarrow> k v)"

section \<open>get_parameters\<close>

text \<open>The dict comprehension \<^verbatim>\<open>{header[col_number]: [value] for col_number, value in
  enumerate(row_values)}\<close>: a repeated header name keeps its first position and its last
  value.\<close>

fun new_entry :: "cell list \<Rightarrow> cell list \<Rightarrow> entry \<Rightarrow> error + entry" where
  "new_entry header [] acc = Inr acc"
| "new_entry [] (v # vs) acc = Inl IndexError"
| "new_entry (h # hs) (v # vs) acc = new_entry hs vs (AList.update h [v] acc)"

text \<open>The loop \<^verbatim>\<open>for key, value in self.parameters[submodel][arg].items()\<close>, which
  appends to each column's list the cell of the first header column of that name. The
  lists are appended to in place, so a failure leaves the earlier appends done.\<close>

fun append_row :: "cell list \<Rightarrow> cell list \<Rightarrow> (cell \<times> cell list) list \<Rightarrow> entry \<Rightarrow> error option \<times> entry" where
  "append_row header row_values [] acc = (None, acc)"
| "append_row header row_values ((key, val) # items) acc =
     (case list_index header key of
        Inl e \<Rightarrow> (Some e, acc)
      | Inr i \<Rightarrow>
         (case list_get row_values i of
            Inl e \<Rightarrow> (Some e, acc)
          | Inr c \<Rightarrow> append_row header row_values items (AList.update key (val @ [c]) acc)))"

text \<open>The body of the loop over the rows, for a row whose submodel cell is not empty.\<close>

definition add_row :: "cell list \<Rightarrow> nat \<Rightarrow> cell \<Rightarrow> cell list \<Rightarrow> params \<Rightarrow> error option \<times> params" where
  "add_row header arg_col sm row_values P =
     (case list_get row_values (arg_col - 1) of
        Inl e \<Rightarrow> (Some e, P)
      | Inr arg \<Rightarrow>
         (case map_of P sm of
            None \<Rightarrow>
              (case new_entry header row_values [] of
                 Inl e \<Rightarrow> (Some e, P)
               | Inr en \<Rightarrow> (None, AList.update sm [(arg, en)] P))
          | Some args \<Rightarrow>
              (case map_of args arg of
                 Some en \<Rightarrow>
                   (case append_row header row_values en en of
                      (err, en') \<Rightarrow> (err, AList.update sm (AList.update arg en' args) P))
               | None \<Rightarrow>
                   (case new_entry header row_values [] of
                      Inl e \<Rightarrow> (Some e, P)
                    | Inr en \<Rightarrow> (None, AList.update sm (AList.update arg en args) P)))))"

fun rows_loop :: "cell list \<Rightarrow> nat \<Rightarrow> nat \<Rightarrow> cell list \<Rightarrow> sheet \<Rightarrow> sheet outcome" where
  "rows_loop header arg_col row_number [] s = Some (Inr s)"
| "rows_loop header arg_col row_number (sm # sms) s =
     (if sm = Str '''' then rows_loop header arg_col (Suc row_number) sms s
      else
        (case add_row header arg_col sm (get_row_values s (int row_number + 2) last_col)
                (parameters s) of
           (Some e, P) \<Rightarrow> Some (Inl (e, s\<lparr>parameters := P\<rparr>))
         | (None, P) \<Rightarrow> rows_loop header arg_col (Suc row_number) sms (s\<lparr>parameters := P\<rparr>)))"

definition get_parameters :: "sheet \<Rightarrow> sheet outcome" where
  "get_parameters s0 =
     (let s = set_col_values (map (\<lambda>n. Num (int n)) [0 ..< get_last_row s0 - 1]) 1 2 s0;
          header = get_row_values s 1 last_col
      in attempt (list_index header (Str ''submodel'')) s (\<lambda>i.
         let submodel_col = i + 1 in
         attempt (list_index header (Str ''arg'')) s (\<lambda>j.
         let arg_col = j + 1;
             submodel_list = tl (get_col_values s (int submodel_col))
         in rows_loop header arg_col 0 submodel_list (s\<lparr>parameters := []\<rparr>))))"

section \<open>The Submodel Registry and the Python compiler\<close>

text \<open>
  The functions that \<^verbatim>\<open>eval(submodel_name)\<close> finds are not part of datafit.py
  (they come from model_functions.py and from \<^verbatim>\<open>__main__\<close>), and neither is Python's
  compiler, which \<^verbatim>\<open>eval\<close> runs on the assembled text. Both are parameters:
  \<open>signature_of\<close> gives the declared parameter names of a name of the module's namespace
  (\<^verbatim>\<open>list(inspect.signature(eval(name)).parameters)\<close>), \<open>main_signature_of\<close> the same for
  \<^verbatim>\<open>__main__\<close>, \<open>compiles\<close> says whether a text is a Python expression, and \<open>curve_fit\<close> is
  the solver, from the model text, the guesses and the two bounds to the fitted values and
  their standard errors.
\<close>

record env =
  signature_of :: "string \<Rightarrow> string list option"
  main_signature_of :: "string \<Rightarrow> string list option"
  compiles :: "string \<Rightarrow> bool"
  curve_fit :: "string \<Rightarrow> cell list \<Rightarrow> cell list \<Rightarrow> cell list \<Rightarrow> error + (cell list \<times> cell list)"

section \<open>Reading and writing the parameter mapping\<close>

text \<open>\<^verbatim>\<open>self.parameters[submodel][arg][col]\<close>\<close>

definition column :: "params \<Rightarrow> cell \<Rightarrow> cell \<Rightarrow> string \<Rightarrow> error + cell list" where
  "column P sm arg col =
     (case getitem P sm of
        Inl e \<Rightarrow> Inl e
      | Inr args \<Rightarrow>
         (case getitem args arg of
            Inl e \<Rightarrow> Inl e
          | Inr en \<Rightarrow> getitem en (Str col)))"

text \<open>\<^verbatim>\<open>list(self.parameters[submodel][arg][col])[i]\<close>\<close>

definition cell_at :: "params \<Rightarrow> cell \<Rightarrow> cell \<Rightarrow> string \<Rightarrow> nat \<Rightarrow> error + cell" where
  "cell_at P sm arg col i =
     (case column P sm arg col of Inl e \<Rightarrow> Inl e | Inr xs \<Rightarrow> list_get xs i)"

text \<open>\<^verbatim>\<open>self.parameters[submodel][arg][col][i] = v\<close>\<close>

definition set_param :: "params \<Rightarrow> cell \<Rightarrow> cell \<Rightarrow> string \<Rightarrow> nat \<Rightarrow> cell \<Rightarrow> error + params" where
  "set_param P sm arg col i v =
     (case getitem P sm of
        Inl e \<Rightarrow> Inl e
      | Inr args \<Rightarrow>
         (case getitem args arg of
            Inl e \<Rightarrow> Inl e
          | Inr en \<Rightarrow>
             (case getitem en (Str col) of
                Inl e \<Rightarrow> Inl e
              | Inr xs \<Rightarrow>
                 (case list_set xs i v of
                    Inl e \<Rightarrow> Inl e
                  | Inr xs' \<Rightarrow>
                     Inr (AList.update sm
                            (AList.update arg (AList.update (Str col) xs' en) args) P)))))"

text \<open>The test \<^verbatim>\<open>'y' in [use for sublist in [self.parameters[submodel][arg]['use'] for arg
  in self.parameters[submodel]] for use in sublist]\<close>\<close>

fun all_uses :: "(cell \<times> entry) list \<Rightarrow> error + cell list" where
  "all_uses [] = Inr []"
| "all_uses ((arg, en) # rest) =
     (case getitem en (Str ''use'') of
        Inl e \<Rightarrow> Inl e
      | Inr u \<Rightarrow> (case all_uses rest of Inl e \<Rightarrow> Inl e | Inr us \<Rightarrow> Inr (u @ us)))"

definition is_active :: "params \<Rightarrow> cell \<Rightarrow> error + bool" where
  "is_active P sm =
     (case getitem P sm of
        Inl e \<Rightarrow> Inl e
      | Inr args \<Rightarrow>
         (case all_uses args of Inl e \<Rightarrow> Inl e | Inr us \<Rightarrow> Inr (Str ''y'' \<in> set us)))"

text \<open>The selection of the use-case of an expected argument:
  \<^verbatim>\<open>to_use = self.parameters[submodel][arg]['use'].index('y')\<close>, whose \<^verbatim>\<open>ValueError\<close> becomes
  \<^verbatim>\<open>MissingArgument(submodel, arg)\<close>. A \<^verbatim>\<open>KeyError\<close> is not caught.\<close>

definition select_use :: "params \<Rightarrow> cell \<Rightarrow> string \<Rightarrow> error + nat" where
  "select_use P sm arg =
     (case column P sm (Str arg) ''use'' of
        Inl e \<Rightarrow> Inl e
      | Inr use \<Rightarrow>
         (case py_index (Str ''y'') use of
            None \<Rightarrow> Inl (MissingArgument sm arg)
          | Some i \<Rightarrow> Inr i))"

text \<open>\<^verbatim>\<open>hashtag+2\<close>, the row of a use-case.\<close>

definition plus2 :: "cell \<Rightarrow> error + int" where
  "plus2 v = (case v of Num n \<Rightarrow> Inr (n + 2) | _ \<Rightarrow> Inl TypeError)"

section \<open>Link resolution\<close>

text \<open>
  One resolution step, written twice in the source (before the \<^verbatim>\<open>while\<close> and as its body):
  split the vary cell at the commas, test
  \<^verbatim>\<open>submodel2link in self.parameters and arg2link in self.parameters[submodel]\<close>
  (the second test reads the submodel being assembled, as the source does), then read the
  target's selected use-case and its vary cell.
\<close>

type_synonym link = "string \<times> string \<times> nat \<times> cell"

definition link_step :: "params \<Rightarrow> cell \<Rightarrow> cell \<Rightarrow> error + link" where
  "link_step P sm vary =
     (case cell_split CHR '','' vary of
        Inl e \<Rightarrow> Inl e
      | Inr parts \<Rightarrow>
         (case parts of
            [] \<Rightarrow> Inl IndexError
          | submodel2link # _ \<Rightarrow>
             (let arg2link = last parts in
              if contains P (Str submodel2link) then
                (case getitem P sm of
                   Inl e \<Rightarrow> Inl e
                 | Inr args \<Rightarrow>
                    if contains args (Str arg2link) then
                      (case column P (Str submodel2link) (Str arg2link) ''use'' of
                         Inl e \<Rightarrow> Inl e
                       | Inr use \<Rightarrow>
                          (case list_index use (Str ''y'') of
                             Inl e \<Rightarrow> Inl e
                           | Inr to_use_linked \<Rightarrow>
                              (case cell_at P (Str submodel2link) (Str arg2link) ''vary''
                                      to_use_linked of
                                 Inl e \<Rightarrow> Inl e
                               | Inr vary2 \<Rightarrow>
                                  Inr (submodel2link, arg2link, to_use_linked, vary2))))
                    else Inl (CannotFind submodel2link arg2link))
              else Inl (CannotFind submodel2link arg2link))))"

text \<open>The loop \<^verbatim>\<open>while vary2 != 'y' and vary2 != 'n'\<close>. Nothing bounds it, so it is a
  partial function: \<open>None\<close> is the loop that never ends.\<close>

partial_function (option) link_loop :: "params \<Rightarrow> cell \<Rightarrow> link \<Rightarrow> (error + link) option" where
  "link_loop P sm lk =
     (case lk of (submodel2link, arg2link, to_use_linked, vary2) \<Rightarrow>
        if vary2 \<noteq> Str ''y'' \<and> vary2 \<noteq> Str ''n'' then
          (case link_step P sm vary2 of
             Inl e \<Rightarrow> Some (Inl e)
           | Inr lk' \<Rightarrow> link_loop P sm lk')
        else Some (Inr lk))"

declare link_loop.simps [code]

section \<open>update_model: one argument\<close>

text \<open>The columns found in the header, and the locals of \<^verbatim>\<open>update_model\<close> that the
  loops carry: \<^verbatim>\<open>var_string\<close>, \<^verbatim>\<open>model_string\<close>, \<^verbatim>\<open>p\<close> and \<^verbatim>\<open>x\<close>.\<close>

record columns =
  guess_col :: int
  fitted_col :: int
  error_col :: int
  id_col :: int

record locals =
  var_string :: string
  model_text :: string
  p_next :: nat
  x_next :: nat

text \<open>Lines 167 to 187: the argument is a link, and the chain has ended at \<open>lk\<close>.\<close>

definition linked_arg ::
  "columns \<Rightarrow> cell \<Rightarrow> string \<Rightarrow> nat \<Rightarrow> cell \<Rightarrow> link \<Rightarrow> sheet \<times> locals \<Rightarrow> (sheet \<times> locals) outcome" where
  "linked_arg C sm arg to_use hashtag lk st =
     (case (lk, st) of ((submodel2link, arg2link, to_use_linked, vary2), (s, l)) \<Rightarrow>
        if vary2 = Str ''n'' then
          attempt (cell_at (parameters s) (Str submodel2link) (Str arg2link) ''guess''
                     to_use_linked) s (\<lambda>v.
          attempt (plus2 hashtag) s (\<lambda>row.
            Some (Inr
              (set_cell_value (Num 0) row (error_col C)
                 (set_cell_value v row (fitted_col C)
                    (set_cell_value v row (guess_col C)
                       (set_cell_value (Str ''-'') row (id_col C) s))),
               l\<lparr>model_text := model_text l @ str v @ '', ''\<rparr>))))
        else
          (let key = submodel2link @ '','' @ arg2link in
           case map_of (linked_parameters s) key of
             Some x_temp \<Rightarrow>
               attempt (plus2 hashtag) s (\<lambda>row.
               let s1 = set_cell_value (Str (''x'' @ str_nat x_temp)) row (id_col C) s in
               attempt (set_param (parameters s1) sm (Str arg) ''id'' to_use
                          (Str (''x'' @ str_nat x_temp))) s1 (\<lambda>P'.
                 Some (Inr
                   (s1\<lparr>parameters := P'\<rparr>,
                    l\<lparr>model_text := model_text l @ ''x'' @ str_nat x_temp @ '', ''\<rparr>))))
           | None \<Rightarrow>
               (let s0 = s\<lparr>linked_parameters :=
                             AList.update key (x_next l) (linked_parameters s)\<rparr> in
                attempt (plus2 hashtag) s0 (\<lambda>row.
                let s1 = set_cell_value (Str (''x'' @ str_nat (x_next l))) row (id_col C) s0 in
                attempt (set_param (parameters s1) sm (Str arg) ''id'' to_use
                           (Str (''x'' @ str_nat (x_next l)))) s1 (\<lambda>P'.
                  Some (Inr
                    (s1\<lparr>parameters := P'\<rparr>,
                     l\<lparr>model_text := model_text l @ ''x'' @ str_nat (x_next l) @ '', '',
                       x_next := x_next l + 1\<rparr>)))))))"

text \<open>Lines 191 to 199: the argument is fixed.\<close>

definition fixed_arg ::
  "columns \<Rightarrow> cell \<Rightarrow> string \<Rightarrow> nat \<Rightarrow> cell \<Rightarrow> sheet \<times> locals \<Rightarrow> (sheet \<times> locals) outcome" where
  "fixed_arg C sm arg to_use hashtag st =
     (case st of (s, l) \<Rightarrow>
        attempt (cell_at (parameters s) sm (Str arg) ''guess'' to_use) s (\<lambda>v.
        attempt (plus2 hashtag) s (\<lambda>row.
        let s1 = set_cell_value (Str ''-'') row (id_col C) s in
        attempt (set_param (parameters s1) sm (Str arg) ''id'' to_use (Str ''-'')) s1 (\<lambda>P1.
        let s2 = set_cell_value v row (fitted_col C) (s1\<lparr>parameters := P1\<rparr>) in
        attempt (set_param (parameters s2) sm (Str arg) ''fitted'' to_use v) s2 (\<lambda>P2.
        let s3 = set_cell_value (Num 0) row (error_col C) (s2\<lparr>parameters := P2\<rparr>) in
        attempt (set_param (parameters s3) sm (Str arg) ''error'' to_use (Num 0)) s3 (\<lambda>P3.
          Some (Inr
            (s3\<lparr>parameters := P3\<rparr>,
             l\<lparr>model_text := model_text l @ str v @ '', ''\<rparr>))))))))"

text \<open>Lines 210 to 226: the id of a free argument. The handler of \<^verbatim>\<open>UnboundLocalError\<close>
  is dead code (\<^verbatim>\<open>self.linked_parameters\<close> is an attribute, set before the loop).\<close>

definition free_id ::
  "columns \<Rightarrow> cell \<Rightarrow> string \<Rightarrow> nat \<Rightarrow> cell \<Rightarrow> sheet \<times> locals \<Rightarrow> (sheet \<times> locals) outcome" where
  "free_id C sm arg to_use hashtag st =
     (case st of (s5, l) \<Rightarrow>
        attempt (case sm of Str name \<Rightarrow> Inr (name @ '','' @ arg) | _ \<Rightarrow> Inl TypeError) s5
          (\<lambda>key.
        case map_of (linked_parameters s5) key of
          Some x_temp \<Rightarrow>
            attempt (plus2 hashtag) s5 (\<lambda>row.
            let s6 = set_cell_value (Str (''x'' @ str_nat x_temp)) row (id_col C) s5 in
            attempt (set_param (parameters s6) sm (Str arg) ''id'' to_use
                       (Str (''x'' @ str_nat x_temp))) s6 (\<lambda>P'.
              Some (Inr
                (s6\<lparr>parameters := P'\<rparr>,
                 l\<lparr>var_string := var_string l @ ''x'' @ str_nat x_temp @ '', '',
                   model_text := model_text l @ ''x'' @ str_nat x_temp @ '', ''\<rparr>))))
        | None \<Rightarrow>
            attempt (plus2 hashtag) s5 (\<lambda>row.
            let s6 = set_cell_value (Str (''p'' @ str_nat (p_next l))) row (id_col C) s5 in
            attempt (set_param (parameters s6) sm (Str arg) ''id'' to_use
                       (Str (''p'' @ str_nat (p_next l)))) s6 (\<lambda>P'.
              Some (Inr
                (s6\<lparr>parameters := P'\<rparr>,
                 l\<lparr>var_string := var_string l @ ''p'' @ str_nat (p_next l) @ '', '',
                   model_text := model_text l @ ''p'' @ str_nat (p_next l) @ '', '',
                   p_next := p_next l + 1\<rparr>))))))"

text \<open>Lines 204 to 226: the argument is free.\<close>

definition free_arg ::
  "columns \<Rightarrow> cell \<Rightarrow> string \<Rightarrow> nat \<Rightarrow> cell \<Rightarrow> sheet \<times> locals \<Rightarrow> (sheet \<times> locals) outcome" where
  "free_arg C sm arg to_use hashtag st =
     (case st of (s, l) \<Rightarrow>
        attempt (cell_at (parameters s) sm (Str arg) ''min'' to_use) s (\<lambda>v1.
        let s1 = s\<lparr>p_min := p_min s @ [v1]\<rparr> in
        attempt (cell_at (parameters s1) sm (Str arg) ''max'' to_use) s1 (\<lambda>v2.
        let s2 = s1\<lparr>p_max := p_max s1 @ [v2]\<rparr> in
        attempt (cell_at (parameters s2) sm (Str arg) ''guess'' to_use) s2 (\<lambda>v3.
        let s3 = s2\<lparr>p_guess := p_guess s2 @ [v3]\<rparr> in
        attempt (cell_at (parameters s3) sm (Str arg) ''fitted'' to_use) s3 (\<lambda>v4.
        let s4 = s3\<lparr>p_fitted := p_fitted s3 @ [v4]\<rparr> in
        attempt (cell_at (parameters s4) sm (Str arg) ''error'' to_use) s4 (\<lambda>v5.
          free_id C sm arg to_use hashtag (s4\<lparr>p_error := p_error s4 @ [v5]\<rparr>, l)))))))"

text \<open>Lines 136 to 226: the body of \<^verbatim>\<open>for arg in args_expected[1: ]\<close>.\<close>

definition process_arg ::
  "columns \<Rightarrow> cell \<Rightarrow> string \<Rightarrow> sheet \<times> locals \<Rightarrow> (sheet \<times> locals) outcome" where
  "process_arg C sm arg st =
     (case st of (s, l) \<Rightarrow>
        attempt (select_use (parameters s) sm arg) s (\<lambda>to_use.
        attempt (cell_at (parameters s) sm (Str arg) ''vary'' to_use) s (\<lambda>vary.
        attempt (cell_at (parameters s) sm (Str arg) ''#'' to_use) s (\<lambda>hashtag.
          if vary \<noteq> Str ''y'' \<and> vary \<noteq> Str ''n'' then
            attempt (link_step (parameters s) sm vary) s (\<lambda>lk0.
              case link_loop (parameters s) sm lk0 of
                None \<Rightarrow> None
              | Some (Inl e) \<Rightarrow> Some (Inl (e, s))
              | Some (Inr lk) \<Rightarrow> linked_arg C sm arg to_use hashtag lk (s, l))
          else if vary = Str ''n'' then fixed_arg C sm arg to_use hashtag (s, l)
          else free_arg C sm arg to_use hashtag (s, l)))))"

fun args_loop ::
  "columns \<Rightarrow> cell \<Rightarrow> string list \<Rightarrow> sheet \<times> locals \<Rightarrow> (sheet \<times> locals) outcome" where
  "args_loop C sm [] st = Some (Inr st)"
| "args_loop C sm (arg # args) st = after (process_arg C sm arg st) (args_loop C sm args)"

section \<open>update_model: the submodels\<close>

text \<open>\<^verbatim>\<open>list(inspect.signature(eval(submodel_name)).parameters)\<close>\<close>

definition args_expected :: "env \<Rightarrow> string \<Rightarrow> error + string list" where
  "args_expected E name =
     (case signature_of E name of None \<Rightarrow> Inl (NameError name) | Some ps \<Rightarrow> Inr ps)"

text \<open>\<^verbatim>\<open>submodel.split('#')[0]\<close>\<close>

definition submodel_name :: "cell \<Rightarrow> error + string" where
  "submodel_name sm =
     (case cell_split CHR ''#'' sm of
        Inl e \<Rightarrow> Inl e
      | Inr parts \<Rightarrow> (case parts of [] \<Rightarrow> Inl IndexError | name # _ \<Rightarrow> Inr name))"

text \<open>Lines 116 to 228: the body of \<^verbatim>\<open>for submodel in self.parameters\<close>.\<close>

definition process_submodel ::
  "env \<Rightarrow> columns \<Rightarrow> cell \<Rightarrow> sheet \<times> locals \<Rightarrow> (sheet \<times> locals) outcome" where
  "process_submodel E C sm st =
     (case st of (s, l) \<Rightarrow>
        attempt (is_active (parameters s) sm) s (\<lambda>active.
          if active then
            attempt (submodel_name sm) s (\<lambda>name.
            attempt (args_expected E name) s (\<lambda>expected.
              after (args_loop C sm (tl expected)
                       (s, l\<lparr>model_text := model_text l @ name @ ''(x, ''\<rparr>))
                (\<lambda>(s', l'). Some (Inr (s', l'\<lparr>model_text := model_text l' @ '') + ''\<rparr>)))))
          else Some (Inr (s, l))))"

fun submodels_loop ::
  "env \<Rightarrow> columns \<Rightarrow> cell list \<Rightarrow> sheet \<times> locals \<Rightarrow> (sheet \<times> locals) outcome" where
  "submodels_loop E C [] st = Some (Inr st)"
| "submodels_loop E C (sm # sms) st =
     after (process_submodel E C sm st) (submodels_loop E C sms)"

section \<open>update_submodels\<close>

text \<open>\<^verbatim>\<open>self.submodel[submodel]\<close> holds the two texts \<^verbatim>\<open>guess_string\<close> and \<^verbatim>\<open>fit_string\<close>
  (the two functions compiled from them are not kept).\<close>

definition add_guess_string :: "cell \<Rightarrow> string \<Rightarrow> sheet \<Rightarrow> error + sheet" where
  "add_guess_string sm t s =
     (case getitem (submodel s) sm of
        Inl e \<Rightarrow> Inl e
      | Inr (g, f) \<Rightarrow> Inr (s\<lparr>submodel := AList.update sm (g @ t, f) (submodel s)\<rparr>))"

definition add_fit_string :: "cell \<Rightarrow> string \<Rightarrow> sheet \<Rightarrow> error + sheet" where
  "add_fit_string sm t s =
     (case getitem (submodel s) sm of
        Inl e \<Rightarrow> Inl e
      | Inr (g, f) \<Rightarrow> Inr (s\<lparr>submodel := AList.update sm (g, f @ t) (submodel s)\<rparr>))"

text \<open>Lines 285 to 300: the body of \<^verbatim>\<open>for arg in args_expected[1: ]\<close>.\<close>

definition submodel_arg :: "cell \<Rightarrow> string \<Rightarrow> sheet \<Rightarrow> sheet outcome" where
  "submodel_arg sm arg s =
     attempt (select_use (parameters s) sm arg) s (\<lambda>to_use.
     attempt (cell_at (parameters s) sm (Str arg) ''id'' to_use) s (\<lambda>idv.
       if idv \<noteq> Str ''-'' then
         attempt (list_index (map Str (id_list s)) idv) s (\<lambda>k.
         attempt (list_get (p_guess s) k) s (\<lambda>g.
         attempt (add_guess_string sm (str g @ '', '') s) s (\<lambda>s1.
         attempt (list_get (p_fitted s1) k) s1 (\<lambda>f.
         attempt (add_fit_string sm (str f @ '', '') s1) s1 (\<lambda>s2. Some (Inr s2))))))
       else
         attempt (cell_at (parameters s) sm (Str arg) ''guess'' to_use) s (\<lambda>g.
         attempt (add_guess_string sm (str g @ '', '') s) s (\<lambda>s1.
         attempt (cell_at (parameters s1) sm (Str arg) ''fitted'' to_use) s1 (\<lambda>f.
         attempt (add_fit_string sm (str f @ '', '') s1) s1 (\<lambda>s2. Some (Inr s2)))))))"

fun submodel_args_loop :: "cell \<Rightarrow> string list \<Rightarrow> sheet \<Rightarrow> sheet outcome" where
  "submodel_args_loop sm [] s = Some (Inr s)"
| "submodel_args_loop sm (arg # args) s =
     after (submodel_arg sm arg s) (submodel_args_loop sm args)"

text \<open>\<^verbatim>\<open>eval(f'__main__.{submodel_name}')\<close>, and \<^verbatim>\<open>eval(submodel_name)\<close> when \<^verbatim>\<open>__main__\<close> has
  no such attribute.\<close>

definition args_expected_main :: "env \<Rightarrow> string \<Rightarrow> error + string list" where
  "args_expected_main E name =
     (case main_signature_of E name of
        Some ps \<Rightarrow> Inr ps
      | None \<Rightarrow> args_expected E name)"

text \<open>Lines 302 to 306: the two texts are closed and compiled.\<close>

definition close_submodel :: "env \<Rightarrow> cell \<Rightarrow> sheet \<Rightarrow> sheet outcome" where
  "close_submodel E sm s3 =
     attempt (getitem (submodel s3) sm) s3 (\<lambda>(g, f).
       let g' = drop_last 2 g @ '')'';
           s4 = s3\<lparr>submodel := AList.update sm (g', f) (submodel s3)\<rparr>;
           f' = drop_last 2 f @ '')'';
           s5 = s4\<lparr>submodel := AList.update sm (g', f') (submodel s4)\<rparr>
       in if \<not> compiles E (''lambda x:'' @ g') then
            Some (Inl (SyntaxError (''lambda x:'' @ g'), s5))
          else if \<not> compiles E (''lambda x:'' @ f') then
            Some (Inl (SyntaxError (''lambda x:'' @ f'), s5))
          else Some (Inr s5))"

text \<open>Lines 260 to 306: the body of \<^verbatim>\<open>for submodel in self.parameters\<close>.\<close>

definition build_submodel :: "env \<Rightarrow> cell \<Rightarrow> sheet \<Rightarrow> sheet outcome" where
  "build_submodel E sm s =
     attempt (is_active (parameters s) sm) s (\<lambda>active.
       if active then
         (let s0 = s\<lparr>submodel := AList.update sm ('''', '''') (submodel s)\<rparr> in
          attempt (submodel_name sm) s0 (\<lambda>name.
          attempt (args_expected_main E name) s0 (\<lambda>expected.
          attempt (add_guess_string sm (name @ ''(x, '') s0) s0 (\<lambda>s1.
          attempt (add_fit_string sm (name @ ''(x, '') s1) s1 (\<lambda>s2.
            after (submodel_args_loop sm (tl expected) s2) (close_submodel E sm))))))
       else Some (Inr s))"

fun build_submodels_loop :: "env \<Rightarrow> cell list \<Rightarrow> sheet \<Rightarrow> sheet outcome" where
  "build_submodels_loop E [] s = Some (Inr s)"
| "build_submodels_loop E (sm # sms) s =
     after (build_submodel E sm s) (build_submodels_loop E sms)"

definition update_submodels :: "env \<Rightarrow> sheet \<Rightarrow> sheet outcome" where
  "update_submodels E s =
     build_submodels_loop E (map fst (parameters s)) (s\<lparr>submodel := []\<rparr>)"

section \<open>update_model\<close>

text \<open>Line 238: \<^verbatim>\<open>[self.id_list[i] for i, x in enumerate(self.p_guess) if x == '']\<close>\<close>

fun guess_missing :: "string list \<Rightarrow> nat \<Rightarrow> cell list \<Rightarrow> error + string list" where
  "guess_missing ids i [] = Inr []"
| "guess_missing ids i (g # gs) =
     (if g = Str '''' then
        (case list_get ids i of
           Inl e \<Rightarrow> Inl e
         | Inr name \<Rightarrow>
            (case guess_missing ids (Suc i) gs of
               Inl e \<Rightarrow> Inl e
             | Inr names \<Rightarrow> Inr (name # names)))
      else guess_missing ids (Suc i) gs)"

text \<open>Lines 236 to 248: the check of the guesses and the defaults of the other vectors.\<close>

definition check_guess :: "sheet \<Rightarrow> sheet outcome" where
  "check_guess s =
     (if Str '''' \<in> set (p_guess s) then
        attempt (guess_missing (id_list s) 0 (p_guess s)) s (\<lambda>names.
          Some (Inl (NoGuess names, s)))
      else
        (let s1 = (if Str '''' \<in> set (p_min s)
                   then s\<lparr>p_min := map (\<lambda>x. if x = Str '''' then NegInf else x) (p_min s)\<rparr>
                   else s);
             s2 = (if Str '''' \<in> set (p_max s1)
                   then s1\<lparr>p_max := map (\<lambda>x. if x = Str '''' then PosInf else x) (p_max s1)\<rparr>
                   else s1);
             s3 = (if Str '''' \<in> set (p_fitted s2)
                   then s2\<lparr>p_fitted := map (\<lambda>x. if x = Str '''' then Num 0 else x) (p_fitted s2)\<rparr>
                   else s2);
             s4 = (if Str '''' \<in> set (p_error s3)
                   then s3\<lparr>p_error := map (\<lambda>x. if x = Str '''' then Num 0 else x) (p_error s3)\<rparr>
                   else s3)
         in Some (Inr s4)))"

text \<open>
  Lines 230 to 234. The list literal that line 231 evaluates holds the pieces of
  \<^verbatim>\<open>var_string[:-2]\<close> between its commas, each in double quotes (the ids never hold a
  quote or a backslash), so \<^verbatim>\<open>id_list\<close> is those pieces, stripped.
\<close>

definition finish_model :: "env \<Rightarrow> sheet \<times> locals \<Rightarrow> sheet outcome" where
  "finish_model E st =
     (case st of (s, l) \<Rightarrow>
        let s1 = s\<lparr>id_list := map strip (split CHR '','' (drop_last 2 (var_string l)))\<rparr>;
            s2 = s1\<lparr>model_string :=
                      ''lambda x, '' @ drop_last 2 (var_string l) @ '': ''
                        @ drop_last 3 (model_text l)\<rparr>
        in if \<not> compiles E (model_string s2) then
             Some (Inl (SyntaxError (model_string s2), s2))
           else Some (Inr s2))"

text \<open>Lines 92 to 228: everything before the model is finished. \<^verbatim>\<open>refresh()\<close> reloads the
  module; the registry of the environment is the one after the reload.\<close>

definition assemble :: "env \<Rightarrow> sheet \<Rightarrow> (sheet \<times> locals) outcome" where
  "assemble E s0 =
     (let s1 = s0\<lparr>p_min := [], p_max := [], p_guess := [], p_fitted := [], p_error := []\<rparr> in
      after (get_parameters s1) (\<lambda>s2.
      let header = get_row_values s2 1 last_col in
      attempt (list_index header (Str ''guess'')) s2 (\<lambda>g.
      attempt (list_index header (Str ''fitted'')) s2 (\<lambda>f.
      attempt (list_index header (Str ''error'')) s2 (\<lambda>e.
      attempt (list_index header (Str ''id'')) s2 (\<lambda>i.
      let C = \<lparr>guess_col = int g + 1, fitted_col = int f + 1, error_col = int e + 1,
               id_col = int i + 1\<rparr>;
          s3 = set_col_values (replicate (get_last_row s2 - 1) (Str '''')) (id_col C) 2 s2;
          s4 = s3\<lparr>linked_parameters := []\<rparr>
      in submodels_loop E C (map fst (parameters s4))
           (s4, \<lparr>var_string = '''', model_text = '''', p_next = 0, x_next = 0\<rparr>)))))))"

definition update_model :: "env \<Rightarrow> sheet \<Rightarrow> sheet outcome" where
  "update_model E s0 =
     after (assemble E s0) (\<lambda>st.
     after (finish_model E st) (\<lambda>s.
     after (check_guess s) (\<lambda>s'. update_submodels E s')))"

section \<open>fit\<close>

text \<open>Lines 349 to 365: the write-back of one argument.\<close>

definition write_back_arg :: "int \<Rightarrow> int \<Rightarrow> cell \<Rightarrow> string \<Rightarrow> sheet \<Rightarrow> sheet outcome" where
  "write_back_arg fitted_c error_c sm arg s =
     attempt (select_use (parameters s) sm arg) s (\<lambda>to_use.
     attempt (cell_at (parameters s) sm (Str arg) ''#'' to_use) s (\<lambda>hashtag.
     attempt (cell_at (parameters s) sm (Str arg) ''id'' to_use) s (\<lambda>idv.
       if idv \<noteq> Str ''-'' then
         attempt (list_index (map Str (id_list s)) idv) s (\<lambda>k.
         attempt (list_get (p_fitted s) k) s (\<lambda>v1.
         attempt (list_get (p_error s) k) s (\<lambda>v2.
         attempt (plus2 hashtag) s (\<lambda>row.
         let s1 = set_cell_value v2 row error_c (set_cell_value v1 row fitted_c s) in
         attempt (set_param (parameters s1) sm (Str arg) ''fitted'' to_use v1) s1 (\<lambda>P1.
         let s2 = s1\<lparr>parameters := P1\<rparr> in
         attempt (set_param (parameters s2) sm (Str arg) ''error'' to_use v2) s2 (\<lambda>P2.
           Some (Inr (s2\<lparr>parameters := P2\<rparr>))))))))
       else Some (Inr s))))"

fun write_back_args :: "int \<Rightarrow> int \<Rightarrow> cell \<Rightarrow> string list \<Rightarrow> sheet \<Rightarrow> sheet outcome" where
  "write_back_args fitted_c error_c sm [] s = Some (Inr s)"
| "write_back_args fitted_c error_c sm (arg # args) s =
     after (write_back_arg fitted_c error_c sm arg s) (write_back_args fitted_c error_c sm args)"

definition write_back_submodel :: "env \<Rightarrow> int \<Rightarrow> int \<Rightarrow> cell \<Rightarrow> sheet \<Rightarrow> sheet outcome" where
  "write_back_submodel E fitted_c error_c sm s =
     attempt (is_active (parameters s) sm) s (\<lambda>active.
       if active then
         attempt (submodel_name sm) s (\<lambda>name.
         attempt (args_expected E name) s (\<lambda>expected.
           write_back_args fitted_c error_c sm (tl expected) s))
       else Some (Inr s))"

fun write_back_loop :: "env \<Rightarrow> int \<Rightarrow> int \<Rightarrow> cell list \<Rightarrow> sheet \<Rightarrow> sheet outcome" where
  "write_back_loop E fitted_c error_c [] s = Some (Inr s)"
| "write_back_loop E fitted_c error_c (sm # sms) s =
     after (write_back_submodel E fitted_c error_c sm s) (write_back_loop E fitted_c error_c sms)"

text \<open>Lines 326 to 365.\<close>

definition write_back :: "env \<Rightarrow> sheet \<Rightarrow> sheet outcome" where
  "write_back E s =
     (let header = get_row_values s 1 last_col in
      attempt (list_index header (Str ''fitted'')) s (\<lambda>f.
      attempt (list_index header (Str ''error'')) s (\<lambda>e.
        write_back_loop E (int f + 1) (int e + 1) (map fst (parameters s)) s)))"

text \<open>
  \<^verbatim>\<open>fit\<close>. The data, the weights and the numerics of the solver are inside \<open>curve_fit\<close>,
  which gives the fitted values and (for \<^verbatim>\<open>np.sqrt(np.diag(self.p_cov))\<close>) their errors;
  the residue and the final \<^verbatim>\<open>save\<close> of the document are not modelled.
\<close>

definition fit :: "env \<Rightarrow> sheet \<Rightarrow> sheet outcome" where
  "fit E s0 =
     after (update_model E s0) (\<lambda>s.
     attempt (curve_fit E (model_string s) (p_guess s) (p_min s) (p_max s)) s (\<lambda>(fitted, errs).
     after (write_back E (s\<lparr>p_fitted := fitted, p_error := errs\<rparr>)) (\<lambda>s'.
       update_submodels E s')))"

section \<open>fake_sigma\<close>

text \<open>
  The arithmetic of NumPy is not part of the sources, and what it computes depends on the
  dtype it gives to its operands (\<^verbatim>\<open>int64\<close> wraps, \<^verbatim>\<open>float64\<close> rounds). It is a parameter,
  one field for each expression of the two functions: \<open>abs_diff array value\<close> is
  \<^verbatim>\<open>np.abs(np.array(array)-value)\<close>, which raises or gives, for the dtype that the array
  and the value fix, the distance computed for an entry (the result has one entry for each
  entry of the array), in the order in which \<^verbatim>\<open>np.argmin\<close> compares them;
  \<open>ones_times n sigma\<close> is the value of every entry of \<^verbatim>\<open>np.ones(n)*sigma\<close>; and
  \<open>assigned s\<close> is the value that the entries of a slice of that array hold after
  \<^verbatim>\<open>p_sigma[init:final] = s\<close>.
\<close>

record ('a, 'd, 'f) numpy =
  abs_diff :: "'a list \<Rightarrow> 'a \<Rightarrow> error + ('a \<Rightarrow> 'd)"
  ones_times :: "nat \<Rightarrow> 'a \<Rightarrow> error + 'f"
  assigned :: "'a \<Rightarrow> error + 'f"

text \<open>\<^verbatim>\<open>np.argmin\<close>: the first position of the least value of a list that is not empty.\<close>

fun argmin :: "'a::linorder list \<Rightarrow> nat" where
  "argmin [] = 0"
| "argmin [v] = 0"
| "argmin (v # w # ws) =
     (let i = argmin (w # ws) in if v \<le> (w # ws) ! i then 0 else Suc i)"

text \<open>\<^verbatim>\<open>index(array, value)\<close> of arraymanip.py; \<^verbatim>\<open>np.argmin\<close> raises on an empty array.\<close>

definition index :: "('a, 'd::linorder, 'f) numpy \<Rightarrow> 'a list \<Rightarrow> 'a \<Rightarrow> error + nat" where
  "index N array v =
     (case abs_diff N array v of
        Inl e \<Rightarrow> Inl e
      | Inr d \<Rightarrow> if array = [] then Inl EmptyArgmin else Inr (argmin (map d array)))"

text \<open>\<^verbatim>\<open>p_sigma[init:final] = s\<close> for two positions that are not negative.\<close>

definition slice_assign :: "nat \<Rightarrow> nat \<Rightarrow> 'a \<Rightarrow> 'a list \<Rightarrow> 'a list" where
  "slice_assign init final s xs =
     map (\<lambda>i. if init \<le> i \<and> i < final then s else xs ! i) [0 ..< length xs]"

fun specific_loop ::
  "('a, 'd::linorder, 'f) numpy \<Rightarrow> 'a list \<Rightarrow> ('a \<times> 'a \<times> 'a) list \<Rightarrow> 'f list \<Rightarrow> error + 'f list" where
  "specific_loop N x [] p_sigma = Inr p_sigma"
| "specific_loop N x ((x_init, x_final, s) # rest) p_sigma =
     (case index N x x_init of
        Inl e \<Rightarrow> Inl e
      | Inr init \<Rightarrow>
         (case index N x x_final of
            Inl e \<Rightarrow> Inl e
          | Inr final \<Rightarrow>
             (case assigned N s of
                Inl e \<Rightarrow> Inl e
              | Inr f \<Rightarrow> specific_loop N x rest (slice_assign init final f p_sigma))))"

definition fake_sigma ::
  "('a, 'd::linorder, 'f) numpy \<Rightarrow> 'a list \<Rightarrow> 'a \<Rightarrow> ('a \<times> 'a \<times> 'a) list option \<Rightarrow> error + 'f list" where
  "fake_sigma N x sigma sigma_specific =
     (case ones_times N (length x) sigma of
        Inl e \<Rightarrow> Inl e
      | Inr f \<Rightarrow>
         (let p_sigma = replicate (length x) f in
          case sigma_specific of
            None \<Rightarrow> Inr p_sigma
          | Some triples \<Rightarrow> specific_loop N x triples p_sigma))"

text \<open>
  NumPy on Python integers in the range of \<^verbatim>\<open>int64\<close>: the subtraction and the absolute
  value wrap around, and the product with the \<^verbatim>\<open>float64\<close> ones, like the assignment to
  a \<^verbatim>\<open>float64\<close> array, rounds the integer to 53 significant bits, ties to even (a float
  is given here by the integer it is equal to). An integer outside the range is refused
  with \<^verbatim>\<open>OverflowError\<close>.
\<close>

definition in_int64 :: "int \<Rightarrow> bool" where
  "in_int64 n = (- (2 ^ 63) \<le> n \<and> n < 2 ^ 63)"

definition wrap64 :: "int \<Rightarrow> int" where
  "wrap64 n = (n + 2 ^ 63) mod 2 ^ 64 - 2 ^ 63"

fun bit_length :: "nat \<Rightarrow> nat" where
  "bit_length n = (if n = 0 then 0 else Suc (bit_length (n div 2)))"

declare bit_length.simps [simp del]

definition float64_of_int :: "int \<Rightarrow> int" where
  "float64_of_int n =
     (let m = \<bar>n\<bar>; e = bit_length (nat m) - 53; q = m div 2 ^ e; r = m mod 2 ^ e;
          up = (2 * r > 2 ^ e \<or> (2 * r = 2 ^ e \<and> odd q))
      in sgn n * (if up then q + 1 else q) * 2 ^ e)"

definition int64 :: "(int, int, int) numpy" where
  "int64 =
     \<lparr>abs_diff = (\<lambda>array v.
        if (\<forall>a \<in> set array. in_int64 a) \<and> in_int64 v
        then Inr (\<lambda>a. let d = wrap64 (a - v) in if d < 0 then wrap64 (- d) else d)
        else Inl OverflowError),
      ones_times = (\<lambda>n sigma.
        if in_int64 sigma then Inr (float64_of_int sigma) else Inl OverflowError),
      assigned = (\<lambda>s. if in_int64 s then Inr (float64_of_int s) else Inl OverflowError)\<rparr>"

section \<open>Observations and example sheets\<close>

text \<open>What can be seen of an outcome: the exception raised, and the object the call leaves
  behind (returned or not).\<close>

definition raised :: "'a outcome \<Rightarrow> error option" where
  "raised m = (case m of Some (Inl (e, s)) \<Rightarrow> Some e | _ \<Rightarrow> None)"

definition left_sheet :: "sheet outcome \<Rightarrow> sheet option" where
  "left_sheet m =
     (case m of Some (Inl (e, s)) \<Rightarrow> Some s | Some (Inr s) \<Rightarrow> Some s | None \<Rightarrow> None)"

definition returned :: "sheet outcome \<Rightarrow> sheet option" where
  "returned m = (case m of Some (Inr s) \<Rightarrow> Some s | _ \<Rightarrow> None)"


text \<open>A fresh sheet object holding the given rows, the header first.\<close>

definition sheet_of :: "cell list list \<Rightarrow> sheet" where
  "sheet_of rows =
     \<lparr>cells = (\<lambda>(r, c).
         if 1 \<le> r \<and> nat r \<le> length rows \<and> 1 \<le> c \<and> nat c \<le> length (rows ! (nat r - 1))
         then rows ! (nat r - 1) ! (nat c - 1) else Str ''''),
      last_row = length rows, parameters = [], p_min = [], p_max = [], p_guess = [],
      p_fitted = [], p_error = [], linked_parameters = [], id_list = [], model_string = '''',
      submodel = []\<rparr>"

definition header_row :: "cell list" where
  "header_row = map Str [''#'', ''submodel'', ''arg'', ''use'', ''vary'', ''guess'', ''min'',
     ''max'', ''fitted'', ''error'', ''id'']"

text \<open>An environment with the given signatures in the module (none in \<^verbatim>\<open>__main__\<close>), whose
  compiler accepts the listed texts and no other, and whose solver fails.\<close>

definition python_env :: "(string \<times> string list) list \<Rightarrow> string list \<Rightarrow> env" where
  "python_env sigs texts =
     \<lparr>signature_of = map_of sigs, main_signature_of = (\<lambda>name. None),
      compiles = (\<lambda>t. t \<in> set texts), curve_fit = (\<lambda>m g lo hi. Inl SolverFailure)\<rparr>"

text \<open>Scenario 1 of the spec: one submodel \<^verbatim>\<open>gauss\<close>, \<^verbatim>\<open>amplitude\<close> free and \<^verbatim>\<open>center\<close> fixed.\<close>

definition scenario_1 :: sheet where
  "scenario_1 = sheet_of
     [header_row,
      [Str '''', Str ''gauss'', Str ''amplitude'', Str ''y'', Str ''y'', Num 1, Num 0, Num 10],
      [Str '''', Str ''gauss'', Str ''center'', Str ''y'', Str ''n'', Num 5]]"

text \<open>Scenario 2 of the spec, in the two orders of its rows: the width of \<^verbatim>\<open>gauss#2\<close> is
  linked to the free width of \<^verbatim>\<open>gauss#1\<close>.\<close>

definition scenario_2 :: sheet where
  "scenario_2 = sheet_of
     [header_row,
      [Str '''', Str ''gauss#1'', Str ''width'', Str ''y'', Str ''y'', Num 1, Num 0, Num 10],
      [Str '''', Str ''gauss#2'', Str ''width'', Str ''y'', Str ''gauss#1,width'']]"

definition scenario_2_link_first :: sheet where
  "scenario_2_link_first = sheet_of
     [header_row,
      [Str '''', Str ''gauss#2'', Str ''width'', Str ''y'', Str ''gauss#1,width''],
      [Str '''', Str ''gauss#1'', Str ''width'', Str ''y'', Str ''y'', Num 1, Num 0, Num 10]]"

text \<open>A link from \<^verbatim>\<open>lorentz\<close> to the width of \<^verbatim>\<open>gauss\<close>, which is in the mapping; \<^verbatim>\<open>lorentz\<close>
  itself has no argument of that name.\<close>

definition link_to_present :: sheet where
  "link_to_present = sheet_of
     [header_row,
      [Str '''', Str ''lorentz'', Str ''gamma'', Str ''y'', Str ''gauss,width'', Num 2],
      [Str '''', Str ''gauss'', Str ''width'', Str ''y'', Str ''y'', Num 1, Num 0, Num 10]]"

text \<open>A link from the width of \<^verbatim>\<open>lorentz\<close> to a width of \<^verbatim>\<open>gauss\<close> that is not in the
  mapping.\<close>

definition link_to_absent :: sheet where
  "link_to_absent = sheet_of
     [header_row,
      [Str '''', Str ''lorentz'', Str ''width'', Str ''y'', Str ''gauss,width'', Num 2],
      [Str '''', Str ''gauss'', Str ''amplitude'', Str ''y'', Str ''y'', Num 1, Num 0, Num 10]]"


text \<open>\<^verbatim>\<open>gauss\<close> with rows for its amplitude only, and with a center that is never in use.\<close>

definition center_absent :: sheet where
  "center_absent = sheet_of
     [header_row,
      [Str '''', Str ''gauss'', Str ''amplitude'', Str ''y'', Str ''y'', Num 1, Num 0, Num 10]]"

definition center_unused :: sheet where
  "center_unused = sheet_of
     [header_row,
      [Str '''', Str ''gauss'', Str ''amplitude'', Str ''y'', Str ''y'', Num 1, Num 0, Num 10],
      [Str '''', Str ''gauss'', Str ''center'', Str ''n'', Str ''n'', Num 5]]"


text \<open>The entries that a triple of \<^verbatim>\<open>sigma_specific\<close> overrides: from the position that
  \<^verbatim>\<open>index\<close> gives for its first value up to, and without, the position that it gives for
  its second value, as the slice of the source.\<close>

definition covers :: "('a, 'd::linorder, 'f) numpy \<Rightarrow> 'a list \<Rightarrow> nat \<Rightarrow> 'a \<times> 'a \<times> 'a \<Rightarrow> bool" where
  "covers N x i t =
     (case t of (x_init, x_final, s) \<Rightarrow>
        (case (index N x x_init, index N x x_final) of
           (Inr init, Inr final) \<Rightarrow> init \<le> i \<and> i < final
         | _ \<Rightarrow> False))"





definition same_outside :: "int set \<Rightarrow> sheet \<Rightarrow> sheet \<Rightarrow> bool" where
  "same_outside K s s' = (\<forall>r c. c \<notin> K \<longrightarrow> cells s' (r, c) = cells s (r, c))"


definition recorded :: "columns \<Rightarrow> sheet \<Rightarrow> cell \<Rightarrow> string \<Rightarrow> nat \<Rightarrow> cell \<Rightarrow> int \<Rightarrow> bool" where
  "recorded C s sm arg i g row =
     (cell_at (parameters s) sm (Str arg) ''fitted'' i = Inr g
      \<and> cell_at (parameters s) sm (Str arg) ''error'' i = Inr (Num 0)
      \<and> cell_at (parameters s) sm (Str arg) ''id'' i = Inr (Str ''-'')
      \<and> cells s (row, fitted_col C) = g
      \<and> cells s (row, error_col C) = Num 0
      \<and> cells s (row, id_col C) = Str ''-'')"







section \<open>Evaluation of the assembly\<close>


lemmas run_defs =
  update_model_def assemble_def get_parameters_def get_last_row_def get_row_values_def
  get_col_values_def set_cell_value_def last_col_def attempt_def after_def list_index_def
  list_get_def list_set_def add_row_def getitem_def contains_def column_def cell_at_def
  set_param_def is_active_def select_use_def plus2_def link_step_def linked_arg_def
  fixed_arg_def free_arg_def free_id_def process_arg_def submodel_name_def cell_split_def
  process_submodel_def finish_model_def check_guess_def update_submodels_def
  build_submodel_def close_submodel_def submodel_arg_def add_guess_string_def
  add_fit_string_def drop_last_def
  strip_def is_space_def str_int_def str_nat.simps upt_rec sheet_of_def header_row_def
  Let_def

lemma attempt_weak_cong: "r = r' \<Longrightarrow> attempt r s k = attempt r' s k"
  by simp

lemma after_weak_cong: "m = m' \<Longrightarrow> after m k = after m' k"
  by simp

section \<open>A link chain that runs into a cycle\<close>



section \<open>fake_sigma\<close>

lemma argmin_least:
  "xs \<noteq> [] \<Longrightarrow> argmin xs < length xs \<and> (\<forall>j < length xs. xs ! argmin xs \<le> xs ! j)
     \<and> (\<forall>j < argmin xs. xs ! argmin xs < xs ! j)"
proof (induction xs rule: argmin.induct)
  case 1
  then show ?case by simp
next
  case (2 v)
  then show ?case by simp
next
  case (3 v w ws)
  let ?i = "argmin (w # ws)"
  from 3 have IH: "?i < length (w # ws)" "\<forall>j < length (w # ws). (w # ws) ! ?i \<le> (w # ws) ! j"
    "\<forall>j < ?i. (w # ws) ! ?i < (w # ws) ! j" by simp_all
  show ?case
  proof (cases "v \<le> (w # ws) ! ?i")
    case True
    then have a: "argmin (v # w # ws) = 0" by (simp add: Let_def)
    have "\<forall>j < length (v # w # ws). v \<le> (v # w # ws) ! j"
    proof (intro allI impI)
      fix j assume j: "j < length (v # w # ws)"
      show "v \<le> (v # w # ws) ! j"
      proof (cases j)
        case 0 then show ?thesis by simp
      next
        case (Suc k)
        with j IH(2) have "(w # ws) ! ?i \<le> (w # ws) ! k" by simp
        with True Suc show ?thesis by simp
      qed
    qed
    with a show ?thesis by simp
  next
    case False
    then have a: "argmin (v # w # ws) = Suc ?i" by (simp add: Let_def)
    have b: "\<forall>j < length (v # w # ws). (w # ws) ! ?i \<le> (v # w # ws) ! j"
    proof (intro allI impI)
      fix j assume j: "j < length (v # w # ws)"
      show "(w # ws) ! ?i \<le> (v # w # ws) ! j"
      proof (cases j)
        case 0 with False show ?thesis by simp
      next
        case (Suc k)
        with j IH(2) show ?thesis by simp
      qed
    qed
    have c: "\<forall>j < Suc ?i. (w # ws) ! ?i < (v # w # ws) ! j"
    proof (intro allI impI)
      fix j assume j: "j < Suc ?i"
      show "(w # ws) ! ?i < (v # w # ws) ! j"
      proof (cases j)
        case 0 with False show ?thesis by simp
      next
        case (Suc k)
        with j IH(3) show ?thesis by simp
      qed
    qed
    from a b c IH(1) show ?thesis by simp
  qed
qed

lemma find_snoc:
  "find P (xs @ [t]) = (case find P xs of Some y \<Rightarrow> Some y | None \<Rightarrow> if P t then Some t else None)"
  by (induction xs) auto

section \<open>The ids in var_string\<close>














section \<open>Rules for the loops of the assembly\<close>











section \<open>The ids and the guesses\<close>











section \<open>The cells that the assembly leaves alone\<close>



lemma same_outside_cells: "cells s' = cells s \<Longrightarrow> same_outside K s s'"
  by (simp add: same_outside_def)

























section \<open>What the assembly of one argument changes\<close>


















section \<open>What the traversal records for a fixed argument\<close>











lemma recorded_locals_free:
  "parameters s2 = parameters s \<Longrightarrow> cells s2 = cells s \<Longrightarrow>
     recorded C s2 sm arg i g row = recorded C s sm arg i g row"
  by (simp add: recorded_def)






section \<open>After the traversal\<close>




















section \<open>The claims\<close>

text \<open>
  C1. Scenario 1 of the spec: \<^verbatim>\<open>gauss\<close> with a free amplitude (guess 1, bounds 0 and 10) and
  a center fixed at 5. In every environment that declares \<^verbatim>\<open>gauss(x, amplitude, center)\<close>
  and whose compiler accepts the three texts assembled, the rebuild returns with the model
  text \<^verbatim>\<open>lambda x, p0: gauss(x, p0, 5, )\<close> (the call \<^verbatim>\<open>gauss(x, p0, 5)\<close> with Python's
  trailing comma), the guess vector \<open>[1]\<close> and the bounds \<open>[0]\<close> and \<open>[10]\<close>.
\<close>

theorem scenario_1_rebuild:
  assumes "args_expected E ''gauss'' = Inr [''x'', ''amplitude'', ''center'']"
    and "args_expected_main E ''gauss'' = Inr [''x'', ''amplitude'', ''center'']"
    and "compiles E ''lambda x, p0: gauss(x, p0, 5, )''"
    and "compiles E ''lambda x:gauss(x, 1, 5)''"
    and "compiles E ''lambda x:gauss(x, 0, 5)''"
  shows "\<exists>s. update_model E scenario_1 = Some (Inr s)
           \<and> model_string s = ''lambda x, p0: gauss(x, p0, 5, )''
           \<and> id_list s = [''p0'']
           \<and> p_guess s = [Num 1] \<and> p_min s = [Num 0] \<and> p_max s = [Num 10]"
  using assms
  by (simp add: scenario_1_def run_defs
        cong: attempt_weak_cong after_weak_cong let_weak_cong)

theorem scenario_1_rebuild_witness:
  "args_expected (python_env [(''gauss'', [''x'', ''amplitude'', ''center''])]
       [''lambda x, p0: gauss(x, p0, 5, )'', ''lambda x:gauss(x, 1, 5)'',
        ''lambda x:gauss(x, 0, 5)'']) ''gauss'' = Inr [''x'', ''amplitude'', ''center'']
   \<and> compiles (python_env [(''gauss'', [''x'', ''amplitude'', ''center''])]
       [''lambda x, p0: gauss(x, p0, 5, )'', ''lambda x:gauss(x, 1, 5)'',
        ''lambda x:gauss(x, 0, 5)'']) ''lambda x, p0: gauss(x, p0, 5, )''
   \<and> (\<exists>s. update_model (python_env [(''gauss'', [''x'', ''amplitude'', ''center''])]
       [''lambda x, p0: gauss(x, p0, 5, )'', ''lambda x:gauss(x, 1, 5)'',
        ''lambda x:gauss(x, 0, 5)'']) scenario_1 = Some (Inr s)
      \<and> model_string s = ''lambda x, p0: gauss(x, p0, 5, )''
      \<and> id_list s = [''p0'']
      \<and> p_guess s = [Num 1] \<and> p_min s = [Num 0] \<and> p_max s = [Num 10])"
  using scenario_1_rebuild [of "python_env [(''gauss'', [''x'', ''amplitude'', ''center''])]
       [''lambda x, p0: gauss(x, p0, 5, )'', ''lambda x:gauss(x, 1, 5)'',
        ''lambda x:gauss(x, 0, 5)'']"]
  by (simp add: python_env_def args_expected_def args_expected_main_def)

text \<open>
  C2. Scenario 2 of the spec with its rows in the order of the spec (the target \<^verbatim>\<open>gauss#1\<close>
  before the link of \<^verbatim>\<open>gauss#2\<close>): the target has already taken the id \<^verbatim>\<open>p0\<close> when the
  link is resolved, the link gets a new id \<^verbatim>\<open>x0\<close> that is in no argument list of the
  target and is not a parameter of the model, and the rebuild ends in
  \<^verbatim>\<open>update_submodels\<close> with the \<^verbatim>\<open>ValueError\<close> of \<^verbatim>\<open>self.id_list.index('x0')\<close>.
\<close>

theorem scenario_2_target_first:
  "raised (update_model (python_env [(''gauss'', [''x'', ''width''])]
      [''lambda x, p0: gauss(x, p0, ) + gauss(x, x0, )'', ''lambda x:gauss(x, 1)'',
       ''lambda x:gauss(x, 0)'']) scenario_2) = Some (NotInList (Str ''x0''))
   \<and> map_option model_string (left_sheet (update_model
        (python_env [(''gauss'', [''x'', ''width''])]
          [''lambda x, p0: gauss(x, p0, ) + gauss(x, x0, )'', ''lambda x:gauss(x, 1)'',
           ''lambda x:gauss(x, 0)'']) scenario_2))
       = Some ''lambda x, p0: gauss(x, p0, ) + gauss(x, x0, )''
   \<and> map_option id_list (left_sheet (update_model
        (python_env [(''gauss'', [''x'', ''width''])]
          [''lambda x, p0: gauss(x, p0, ) + gauss(x, x0, )'', ''lambda x:gauss(x, 1)'',
           ''lambda x:gauss(x, 0)'']) scenario_2)) = Some [''p0'']"
  by code_simp

text \<open>
  C3. The test before a link is followed reads the arguments of the submodel being
  assembled, not those of the target. A link to a pair that is in the mapping raises the
  unresolved-link error when the linking submodel has no argument of the target's name;
  a link to a pair that is not in the mapping raises a \<^verbatim>\<open>KeyError\<close> when it has one.
\<close>

theorem link_test_reads_linking_submodel:
  "raised (update_model (python_env [(''gauss'', [''x'', ''width'']),
      (''lorentz'', [''x'', ''gamma''])] []) link_to_present)
     = Some (CannotFind ''gauss'' ''width'')
   \<and> map_option (\<lambda>s. column (parameters s) (Str ''gauss'') (Str ''width'') ''vary'')
       (left_sheet (update_model (python_env [(''gauss'', [''x'', ''width'']),
          (''lorentz'', [''x'', ''gamma''])] []) link_to_present))
     = Some (Inr [Str ''y''])
   \<and> raised (update_model (python_env [(''gauss'', [''x'', ''amplitude'']),
      (''lorentz'', [''x'', ''width''])] []) link_to_absent)
     = Some (KeyError (Str ''width''))
   \<and> map_option (\<lambda>s. column (parameters s) (Str ''gauss'') (Str ''width'') ''vary'')
       (left_sheet (update_model (python_env [(''gauss'', [''x'', ''amplitude'']),
          (''lorentz'', [''x'', ''width''])] []) link_to_absent))
     = Some (Inl (KeyError (Str ''width'')))"
  by code_simp

text \<open>
  C6. The selection of the use-case catches the \<^verbatim>\<open>ValueError\<close> of \<^verbatim>\<open>index\<close> only. For
  an expected argument that has rows, none in use, \<^verbatim>\<open>MissingArgument\<close> is raised with the
  submodel and the argument; for an expected argument with no row at all, the lookup
  \<^verbatim>\<open>self.parameters[submodel][arg]\<close> raises a \<^verbatim>\<open>KeyError\<close> instead.
\<close>

theorem absent_argument_raises_key_error:
  "raised (update_model (python_env [(''gauss'', [''x'', ''amplitude'', ''center''])] [])
      center_absent) = Some (KeyError (Str ''center''))
   \<and> raised (update_model (python_env [(''gauss'', [''x'', ''amplitude'', ''center''])] [])
      center_unused) = Some (MissingArgument (Str ''gauss'') ''center'')"
  by code_simp












end
